theory Spec2Isabelle
  imports Main "HOL-Library.Word" "HOL-Library.Sublist"
begin

section \<open>The EVM plug-in of coreth: block production and atomic transactions\<close>

text \<open>
  A shallow embedding of the file that defines \<^verbatim>\<open>type VM struct\<close> (package
  \<^verbatim>\<open>evm\<close>). Each Go function that is verified below is one HOL definition with
  the name it has in the source. The \<^verbatim>\<open>VM\<close> struct is a record that the functions
  take and return; the execution engine, the codec and the account state are
  collaborators outside the file, so what they return is an argument of the function
  that calls them. The two mutexes only serialise the goroutines; one call of a function
  is modelled as one atomic step.
\<close>

subsection \<open>Basic types\<close>

type_synonym byte = "8 word"
type_synonym Hash = "256 word"      \<comment> \<open>\<^verbatim>\<open>common.Hash\<close>, 32 bytes\<close>
type_synonym Address = "160 word"   \<comment> \<open>\<^verbatim>\<open>common.Address\<close>, 20 bytes\<close>
type_synonym ID = "256 word"        \<comment> \<open>\<^verbatim>\<open>ids.ID\<close>, 32 bytes\<close>
type_synonym uint64 = "64 word"
type_synonym Duration = int         \<comment> \<open>\<^verbatim>\<open>time.Duration\<close>, nanoseconds\<close>

text \<open>
  An error is either one of the values built by \<^verbatim>\<open>errors.New\<close> at the top of the
  file, or an error handed back by a collaborator.
\<close>

datatype error = errors_New string | foreign_error nat

definition errEmptyBlock :: error where
  "errEmptyBlock = errors_New ''empty block''"

definition errCreateBlock :: error where
  "errCreateBlock = errors_New ''couldn't create block''"

definition errBlockFrequency :: error where
  "errBlockFrequency = errors_New ''too frequent block issuance''"

definition errUnsupportedFXs :: error where
  "errUnsupportedFXs = errors_New ''unsupported feature extensions''"

definition errInvalidBlock :: error where
  "errInvalidBlock = errors_New ''invalid block''"

definition errTooManyAtomicTx :: error where
  "errTooManyAtomicTx = errors_New ''too many pending atomic txs''"

definition errInsufficientFunds :: error where
  "errInsufficientFunds = errors_New ''insufficient funds''"

lemmas error_defs =
  errEmptyBlock_def errCreateBlock_def errBlockFrequency_def errUnsupportedFXs_def
  errInvalidBlock_def errTooManyAtomicTx_def errInsufficientFunds_def

definition Millisecond :: Duration where
  "Millisecond = 1000000"

definition minBlockTime :: Duration where
  "minBlockTime = 250 * Millisecond"

definition maxBlockTime :: Duration where
  "maxBlockTime = 1000 * Millisecond"

definition batchSize :: int where
  "batchSize = 250"

definition bdTimerStateMin :: "8 word" where
  "bdTimerStateMin = 0"

definition bdTimerStateMax :: "8 word" where
  "bdTimerStateMax = 1"

definition bdTimerStateLong :: "8 word" where
  "bdTimerStateLong = 2"

lemmas bdTimerState_defs = bdTimerStateMin_def bdTimerStateMax_def bdTimerStateLong_def

definition maxDuration :: "Duration \<Rightarrow> Duration \<Rightarrow> Duration" where
  "maxDuration x y = (if x > y then x else y)"

subsection \<open>Channels\<close>

text \<open>
  A Go channel made by \<^verbatim>\<open>make(chan T, n)\<close> is its buffer and its capacity.
  The channels that the VM makes itself and that the theorems below are about have a
  capacity of at least one. On such a channel a receiver can be parked only while the
  buffer is empty, so room in the buffer decides whether a send goes through:
  \<open>try_send\<close> is the send case of a \<^verbatim>\<open>select\<close> that has a
  \<^verbatim>\<open>default\<close> branch, and \<open>try_recv\<close> is the receive case of such a
  \<^verbatim>\<open>select\<close>. A plain send or receive blocks where these return \<open>None\<close>.
\<close>

record 'a chan =
  buf :: "'a list"
  cap :: nat

definition make_chan :: "nat \<Rightarrow> 'a chan" where
  "make_chan n = \<lparr>buf = [], cap = n\<rparr>"

definition len :: "('a, 'z) chan_scheme \<Rightarrow> nat" where
  "len c = length (buf c)"

definition try_send :: "'a chan \<Rightarrow> 'a \<Rightarrow> 'a chan option" where
  "try_send c x = (if len c < cap c then Some (c\<lparr>buf := buf c @ [x]\<rparr>) else None)"

definition try_recv :: "'a chan \<Rightarrow> ('a \<times> 'a chan) option" where
  "try_recv c = (case buf c of [] \<Rightarrow> None | x # xs \<Rightarrow> Some (x, c\<lparr>buf := xs\<rparr>))"

text \<open>
  The channel to the consensus engine is made by the caller of \<^verbatim>\<open>Initialize\<close>,
  with a capacity the VM does not know; it may be unbuffered. Of such a channel the
  model also keeps the number of receivers parked on it and the values handed straight
  to a parked receiver. \<open>try_send_peer\<close> is the send case of a \<^verbatim>\<open>select\<close>
  with a \<^verbatim>\<open>default\<close> branch as the Go runtime does it: a parked receiver
  takes the value, otherwise the value goes to the buffer if there is room, otherwise
  the \<^verbatim>\<open>default\<close> branch runs.
\<close>

record 'a peer_chan = "'a chan" +
  parked :: nat
  handed :: "'a list"

definition make_peer_chan :: "nat \<Rightarrow> 'a peer_chan" where
  "make_peer_chan n = \<lparr>buf = [], cap = n, parked = 0, handed = []\<rparr>"

definition try_send_peer :: "'a peer_chan \<Rightarrow> 'a \<Rightarrow> 'a peer_chan option" where
  "try_send_peer c x =
     (if 0 < parked c then Some (c\<lparr>parked := parked c - 1, handed := handed c @ [x]\<rparr>)
      else if len c < cap c then Some (c\<lparr>buf := buf c @ [x]\<rparr>)
      else None)"

subsection \<open>Blocks and the VM\<close>

text \<open>
  Of an execution-engine block (\<^verbatim>\<open>types.Block\<close>) the file reads the hash, the
  coinbase and the extra data. A \<^verbatim>\<open>Block\<close> wraps one with its identifier; the
  back-reference to the VM is a lookup handle and is left out.
\<close>

record ethBlock =
  block_Hash :: Hash
  block_Coinbase :: Address
  block_ExtraData :: "byte list"

record Block =
  block_id :: ID
  block_ethBlock :: ethBlock

datatype Message = PendingTxs

text \<open>
  The fields of \<^verbatim>\<open>VM\<close> that the verified functions read or write.
  \<open>blockDelayTimer\<close> holds the timeout the timer is armed with, if any.
  \<open>newBlockChan\<close> is unbuffered: the list holds the values handed to the builder
  that waits on it, oldest first.
\<close>

record 'tx VM =
  genesisHash :: Hash
  newBlockChan :: "Block option list"
  networkChan :: "Message peer_chan"
  txPoolStabilizedHead :: Hash
  txPoolStabilizedOk :: "unit chan"
  blockDelayTimer :: "Duration option"
  bdTimerState :: "8 word"
  bdGenWaitFlag :: bool
  bdGenFlag :: bool
  atomicTxSubmitChan :: "unit chan"
  pendingAtomicTxs :: "'tx chan"

text \<open>
  \<^verbatim>\<open>Initialize\<close>, as far as the fields above go. Its arguments are what the
  collaborators return on the way: the parsing error of the command line, the number of
  feature extensions, the error of decoding the genesis, the channel to the consensus
  engine, the result of \<^verbatim>\<open>initializeState\<close> (the genesis hash, or the error of
  \<^verbatim>\<open>NewChainState\<close>) and the error of initialising the fx.
\<close>

definition Initialize ::
  "error option \<Rightarrow> nat \<Rightarrow> error option \<Rightarrow> Message peer_chan \<Rightarrow> error + Hash \<Rightarrow> error option
    \<Rightarrow> error + 'tx VM" where
  "Initialize ParsingError len_fxs json_err toEngine initializeState fx_err =
     (case ParsingError of
        Some e \<Rightarrow> Inl e
      | None \<Rightarrow>
          if len_fxs > 0 then Inl errUnsupportedFXs
          else (case json_err of
            Some e \<Rightarrow> Inl e
          | None \<Rightarrow>
              let vm = \<lparr>genesisHash = 0,
                        newBlockChan = [],
                        networkChan = toEngine,
                        txPoolStabilizedHead = 0,
                        txPoolStabilizedOk = make_chan 1,
                        blockDelayTimer = None,
                        bdTimerState = bdTimerStateLong,
                        bdGenWaitFlag = True,
                        bdGenFlag = False,
                        atomicTxSubmitChan = make_chan 1,
                        pendingAtomicTxs = make_chan 1024\<rparr>
              in (case initializeState of
                    Inl e \<Rightarrow> Inl e
                  | Inr h \<Rightarrow>
                      (case fx_err of
                         Some e \<Rightarrow> Inl e
                       | None \<Rightarrow> Inr (vm\<lparr>genesisHash := h\<rparr>)))))"

subsection \<open>The atomic transaction queue\<close>

definition issueTx :: "'tx \<Rightarrow> 'tx VM \<Rightarrow> error option \<times> 'tx VM" where
  "issueTx tx vm =
     (case try_send (pendingAtomicTxs vm) tx of
        Some q \<Rightarrow>
          (case try_send (atomicTxSubmitChan vm) () of
             Some s \<Rightarrow> (None, vm\<lparr>pendingAtomicTxs := q, atomicTxSubmitChan := s\<rparr>)
           | None \<Rightarrow> (None, vm\<lparr>pendingAtomicTxs := q\<rparr>))
      | None \<Rightarrow> (Some errTooManyAtomicTx, vm))"

subsection \<open>The block production scheduler\<close>

text \<open>
  \<^verbatim>\<open>tryBlockGen\<close>. Its first argument is what \<^verbatim>\<open>vm.chain.PendingSize()\<close>
  returns. The \<^verbatim>\<open>switch\<close> on the timer state has no default branch: a state
  that is none of the three constants falls through to the send, as
  \<open>bdTimerStateLong\<close> does.
\<close>

definition tryBlockGen :: "error + int \<Rightarrow> 'tx VM \<Rightarrow> error option \<times> 'tx VM" where
  "tryBlockGen PendingSize vm0 =
     (if bdGenFlag vm0 then (None, vm0)
      else
        let vm = vm0\<lparr>bdGenWaitFlag := True\<rparr> in
        (case PendingSize of
           Inl err \<Rightarrow> (Some err, vm)
         | Inr size' \<Rightarrow>
             if size' = 0 \<and> len (pendingAtomicTxs vm) = 0 then (None, vm)
             else if bdTimerState vm = bdTimerStateMin then (None, vm)
             else if bdTimerState vm = bdTimerStateMax \<and> size' < batchSize then (None, vm)
             else (case try_send_peer (networkChan vm) PendingTxs of
                     Some c \<Rightarrow> (None, vm\<lparr>networkChan := c, bdGenFlag := True\<rparr>)
                   | None \<Rightarrow> (Some errBlockFrequency, vm))))"

text \<open>
  The function that \<^verbatim>\<open>start\<close> gives to \<^verbatim>\<open>timer.NewTimer\<close>: it runs when the
  block delay timer fires. \<^verbatim>\<open>SetTimeoutIn d\<close> is \<open>blockDelayTimer := Some d\<close>.
  The error of the retried \<^verbatim>\<open>tryBlockGen\<close> is dropped, as in the source.
\<close>

definition blockDelayTimer_handler :: "error + int \<Rightarrow> 'tx VM \<Rightarrow> 'tx VM" where
  "blockDelayTimer_handler PendingSize vm0 =
     (let vm =
        (if bdTimerState vm0 = bdTimerStateMin
         then vm0\<lparr>bdTimerState := bdTimerStateMax,
                  blockDelayTimer := Some (maxDuration (maxBlockTime - minBlockTime) 0)\<rparr>
         else if bdTimerState vm0 = bdTimerStateMax
         then vm0\<lparr>bdTimerState := bdTimerStateLong\<rparr>
         else vm0);
        tryAgain = bdGenWaitFlag vm
      in if tryAgain then snd (tryBlockGen PendingSize vm) else vm)"

text \<open>
  \<^verbatim>\<open>buildBlock\<close>. \<open>GenBlock\<close> is what the execution engine does to the VM when asked
  to generate a block: it runs the callbacks below, which hand a block or nil over
  \<open>newBlockChan\<close>. A receive on a channel that holds nothing blocks the builder.
\<close>

datatype 'a blocking = Returns 'a | Blocks

definition buildBlock ::
  "('tx VM \<Rightarrow> 'tx VM) \<Rightarrow> 'tx VM \<Rightarrow> (error + Block) blocking \<times> 'tx VM" where
  "buildBlock GenBlock vm0 =
     (let vm = GenBlock vm0 in
      case newBlockChan vm of
        [] \<Rightarrow> (Blocks, vm)
      | block # rest \<Rightarrow>
          let vm = vm\<lparr>newBlockChan := rest\<rparr> in
          (case block of
             None \<Rightarrow> (Returns (Inl errCreateBlock), vm)
           | Some blk \<Rightarrow>
               let vm = vm\<lparr>bdTimerState := bdTimerStateMin,
                           bdGenWaitFlag := False,
                           bdGenFlag := False,
                           blockDelayTimer := Some minBlockTime\<rparr>
               in (case try_recv (txPoolStabilizedOk vm) of
                     None \<Rightarrow> (Blocks, vm)
                   | Some (u, c) \<Rightarrow> (Returns (Inr blk), vm\<lparr>txPoolStabilizedOk := c\<rparr>))))"

subsection \<open>The callbacks of the execution engine\<close>

text \<open>
  The function given to \<^verbatim>\<open>SetOnFinalizeAndAssemble\<close>. \<open>EVMStateTransfer\<close> applies
  an atomic transaction to the state in place and may fail; \<open>Marshal\<close> is the codec,
  whose error the source drops. A nil byte slice is the empty list.
\<close>

definition onFinalizeAndAssemble ::
  "('tx \<Rightarrow> 'st \<Rightarrow> error option \<times> 'st) \<Rightarrow> ('tx \<Rightarrow> byte list) \<Rightarrow> 'st \<Rightarrow> 'etx list \<Rightarrow> 'tx VM
    \<Rightarrow> (error + byte list) \<times> 'st \<times> 'tx VM" where
  "onFinalizeAndAssemble EVMStateTransfer Marshal state txs vm0 =
     (case try_recv (pendingAtomicTxs vm0) of
        Some (atx, q) \<Rightarrow>
          let vm = vm0\<lparr>pendingAtomicTxs := q\<rparr> in
          (case EVMStateTransfer atx state of
             (Some err, state') \<Rightarrow>
               (Inl err, state', vm\<lparr>newBlockChan := newBlockChan vm @ [None]\<rparr>)
           | (None, state') \<Rightarrow>
               let raw = Marshal atx in (Inr raw, state', vm))
      | None \<Rightarrow>
          if length txs = 0
          then (Inl errEmptyBlock, state, vm0\<lparr>newBlockChan := newBlockChan vm0 @ [None]\<rparr>)
          else (Inr [], state, vm0))"


text \<open>
  \<^verbatim>\<open>extractAtomicTx\<close> and the function given to \<^verbatim>\<open>SetOnExtraStateChange\<close>.
  \<open>Unmarshal\<close> is the codec; \<open>Sign\<close> is \<^verbatim>\<open>atx.Sign(vm.codec, nil)\<close>, which
  initialises the transaction and whose error the source drops.
\<close>

definition extractAtomicTx ::
  "(byte list \<Rightarrow> error + 'tx) \<Rightarrow> ('tx \<Rightarrow> 'tx) \<Rightarrow> ethBlock \<Rightarrow> 'tx option" where
  "extractAtomicTx Unmarshal Sign block =
     (let extdata = block_ExtraData block in
      case Unmarshal extdata of
        Inl err \<Rightarrow> None
      | Inr atx \<Rightarrow> Some (Sign atx))"

definition onExtraStateChange ::
  "(byte list \<Rightarrow> error + 'tx) \<Rightarrow> ('tx \<Rightarrow> 'tx) \<Rightarrow> ('tx \<Rightarrow> 'st \<Rightarrow> error option \<times> 'st)
    \<Rightarrow> ethBlock \<Rightarrow> 'st \<Rightarrow> error option \<times> 'st" where
  "onExtraStateChange Unmarshal Sign EVMStateTransfer block state =
     (case extractAtomicTx Unmarshal Sign block of
        None \<Rightarrow> (None, state)
      | Some tx \<Rightarrow> EVMStateTransfer tx state)"

subsection \<open>Parsing a block\<close>

text \<open>
  \<^verbatim>\<open>parseBlock\<close>. \<open>rlp_DecodeBytes\<close> is the RLP decoder, \<open>VerifyBlock\<close> the
  structural verification of the chain and \<open>BlackholeAddr\<close> the burn address of the
  \<^verbatim>\<open>coreth\<close> package. A call of the decoder or of the verification returns a
  result or panics, and \<^verbatim>\<open>parseBlock\<close> has no \<^verbatim>\<open>recover\<close>: a panic of
  either is a panic of \<^verbatim>\<open>parseBlock\<close>. What it does itself cannot panic: the
  block it decodes into is freshly allocated, and after the decoding it reads the
  hash and the coinbase of the decoded block, compares them and builds the wrapper.
\<close>

datatype 'a call = Result 'a | Panic

definition parseBlock ::
  "(byte list \<Rightarrow> (error + ethBlock) call) \<Rightarrow> (ethBlock \<Rightarrow> bool call) \<Rightarrow> Address \<Rightarrow> 'tx VM
    \<Rightarrow> byte list \<Rightarrow> (error + Block) call" where
  "parseBlock rlp_DecodeBytes VerifyBlock BlackholeAddr vm b =
     (case rlp_DecodeBytes b of
        Panic \<Rightarrow> Panic
      | Result (Inl err) \<Rightarrow> Result (Inl err)
      | Result (Inr ethBlock) \<Rightarrow>
          (case VerifyBlock ethBlock of
             Panic \<Rightarrow> Panic
           | Result ok \<Rightarrow>
               if \<not> ok then Result (Inl errInvalidBlock)
               else
                 let blockHash = block_Hash ethBlock in
                 if blockHash \<noteq> genesisHash vm \<and> block_Coinbase ethBlock \<noteq> BlackholeAddr
                 then Result (Inl errInvalidBlock)
                 else Result (Inr \<lparr>block_id = blockHash, block_ethBlock = ethBlock\<rparr>)))"

text \<open>
  Modelled from the spec: the RLP decoder and the block verification of the chain are
  not part of this file. The specification has a malformed or invalid block rejected
  with an error and never with a panic, so of the two it says that they return on
  every input.
\<close>

definition collaborators_return ::
  "(byte list \<Rightarrow> (error + ethBlock) call) \<Rightarrow> (ethBlock \<Rightarrow> bool call) \<Rightarrow> bool" where
  "collaborators_return rlp_DecodeBytes VerifyBlock =
     ((\<forall>b. rlp_DecodeBytes b \<noteq> Panic) \<and> (\<forall>ethBlock. VerifyBlock ethBlock \<noteq> Panic))"

subsection \<open>The tx-pool stabilization listener\<close>






subsection \<open>Selecting spendable funds\<close>

text \<open>
  The account state at a block answers balance and nonce queries. Balances are
  \<^verbatim>\<open>*big.Int\<close> values that are never negative. \<open>Uint64\<close> is
  \<^verbatim>\<open>(*big.Int).Uint64()\<close>, which keeps the low 64 bits.
\<close>

record StateDB =
  GetBalance :: "Address \<Rightarrow> nat"
  GetBalanceMultiCoin :: "Address \<Rightarrow> Hash \<Rightarrow> nat"
  GetNonce :: "Address \<Rightarrow> uint64"

record AtomicEVMInput =
  Address :: Address
  Amount :: uint64
  AssetID :: ID
  Nonce :: uint64

definition x2cRate :: nat where
  "x2cRate = 1000000000"

definition Uint64 :: "nat \<Rightarrow> uint64" where
  "Uint64 x = of_nat x"

text \<open>
  \<open>BlockState\<close> is what \<^verbatim>\<open>vm.chain.BlockState(vm.getLastAcceptedEthBlock())\<close>
  returns. \<^verbatim>\<open>GetSpendableFunds\<close> asks for it once and \<^verbatim>\<open>GetAcceptedNonce\<close>
  asks again for every input; within one call the last accepted block is the same.
\<close>

definition GetAcceptedNonce :: "error + StateDB \<Rightarrow> Address \<Rightarrow> error + uint64" where
  "GetAcceptedNonce BlockState address =
     (case BlockState of
        Inl err \<Rightarrow> Inl err
      | Inr state \<Rightarrow> Inr (GetNonce state address))"

text \<open>
  The balance that the loop of \<^verbatim>\<open>GetSpendableFunds\<close> reads for an address: of the
  AVAX asset in units of \<open>x2cRate\<close>, of any other asset the multi-coin balance.
\<close>

definition balance_of :: "ID \<Rightarrow> StateDB \<Rightarrow> ID \<Rightarrow> Address \<Rightarrow> uint64" where
  "balance_of AVAXAssetID state assetID addr =
     (if assetID = AVAXAssetID
      then Uint64 (GetBalance state addr div x2cRate)
      else Uint64 (GetBalanceMultiCoin state addr assetID))"

text \<open>
  The \<^verbatim>\<open>for\<close> loop of \<^verbatim>\<open>GetSpendableFunds\<close> over the keys that are left, with
  the inputs, the signers and the amount so far. \<open>GetEthAddress\<close> derives the address
  of a key.
\<close>

fun GetSpendableFunds_loop ::
  "('key \<Rightarrow> Address) \<Rightarrow> ID \<Rightarrow> error + StateDB \<Rightarrow> StateDB \<Rightarrow> ID \<Rightarrow> 'key list
    \<Rightarrow> AtomicEVMInput list \<Rightarrow> 'key list list \<Rightarrow> uint64
    \<Rightarrow> error + (AtomicEVMInput list \<times> 'key list list \<times> uint64)" where
  "GetSpendableFunds_loop GetEthAddress AVAXAssetID BlockState state assetID []
       inputs signers amount = Inr (inputs, signers, amount)"
| "GetSpendableFunds_loop GetEthAddress AVAXAssetID BlockState state assetID (key # keys)
       inputs signers amount =
     (if amount = 0 then Inr (inputs, signers, amount)
      else
        let addr = GetEthAddress key;
            balance = balance_of AVAXAssetID state assetID addr
        in
          if balance = 0
          then GetSpendableFunds_loop GetEthAddress AVAXAssetID BlockState state assetID keys
                 inputs signers amount
          else
            let balance = (if amount < balance then amount else balance) in
            (case GetAcceptedNonce BlockState addr of
               Inl err \<Rightarrow> Inl err
             | Inr nonce \<Rightarrow>
                 GetSpendableFunds_loop GetEthAddress AVAXAssetID BlockState state assetID keys
                   (inputs @ [\<lparr>Address = addr, Amount = balance, AssetID = assetID,
                                Nonce = nonce\<rparr>])
                   (signers @ [[key]])
                   (amount - balance)))"

definition GetSpendableFunds ::
  "('key \<Rightarrow> Address) \<Rightarrow> ID \<Rightarrow> error + StateDB \<Rightarrow> 'key list \<Rightarrow> ID \<Rightarrow> uint64
    \<Rightarrow> error + (AtomicEVMInput list \<times> 'key list list)" where
  "GetSpendableFunds GetEthAddress AVAXAssetID BlockState keys assetID amount =
     (case BlockState of
        Inl err \<Rightarrow> Inl err
      | Inr state \<Rightarrow>
          (case GetSpendableFunds_loop GetEthAddress AVAXAssetID BlockState state assetID keys
                  [] [] amount of
             Inl err \<Rightarrow> Inl err
           | Inr (inputs, signers, amount') \<Rightarrow>
               if amount' > 0 then Inl errInsufficientFunds
               else Inr (inputs, signers)))"

text \<open>
  The fund selector as the specification words it, on unbounded numbers: for each
  identity in order, while the remaining amount is positive, read its balance; skip a
  zero balance; consume the minimum of balance and remaining amount; subtract it from
  the remaining amount; stop once the remaining amount is zero. The result is the
  list of identities with the amount each one gives, and the amount still missing.
\<close>

fun fund_selector_spec :: "('key \<Rightarrow> nat) \<Rightarrow> 'key list \<Rightarrow> nat \<Rightarrow> ('key \<times> nat) list \<times> nat" where
  "fund_selector_spec bal [] remaining = ([], remaining)"
| "fund_selector_spec bal (k # ks) remaining =
     (if remaining > 0
      then (if bal k = 0 then fund_selector_spec bal ks remaining
            else let take = min (bal k) remaining;
                     rest = fund_selector_spec bal ks (remaining - take)
                 in ((k, take) # fst rest, snd rest))
      else ([], remaining))"

text \<open>
  The balance of the asset that the state holds for an address, as an unbounded
  number: of AVAX in units of \<open>x2cRate\<close>, of any other asset the multi-coin
  balance. \<open>key_balance\<close> is that balance for the address of a key.
\<close>

definition asset_balance :: "ID \<Rightarrow> StateDB \<Rightarrow> ID \<Rightarrow> Address \<Rightarrow> nat" where
  "asset_balance AVAXAssetID state assetID addr =
     (if assetID = AVAXAssetID then GetBalance state addr div x2cRate
      else GetBalanceMultiCoin state addr assetID)"

definition key_balance :: "('key \<Rightarrow> Address) \<Rightarrow> ID \<Rightarrow> StateDB \<Rightarrow> ID \<Rightarrow> 'key \<Rightarrow> nat" where
  "key_balance GetEthAddress AVAXAssetID state assetID key =
     asset_balance AVAXAssetID state assetID (GetEthAddress key)"

text \<open>
  \<open>read_balance\<close> is the number that the loop of \<^verbatim>\<open>GetSpendableFunds\<close> reads
  as the balance of a key: the low 64 bits of \<open>key_balance\<close>. Then the input and
  the signers recorded for a key that gives an amount.
\<close>

definition read_balance :: "('key \<Rightarrow> Address) \<Rightarrow> ID \<Rightarrow> StateDB \<Rightarrow> ID \<Rightarrow> 'key \<Rightarrow> nat" where
  "read_balance GetEthAddress AVAXAssetID state assetID key =
     unat (balance_of AVAXAssetID state assetID (GetEthAddress key))"

definition selected_input ::
  "('key \<Rightarrow> Address) \<Rightarrow> StateDB \<Rightarrow> ID \<Rightarrow> 'key \<times> nat \<Rightarrow> AtomicEVMInput" where
  "selected_input GetEthAddress state assetID sel =
     \<lparr>Address = GetEthAddress (fst sel), Amount = of_nat (snd sel), AssetID = assetID,
      Nonce = GetNonce state (GetEthAddress (fst sel))\<rparr>"

definition selected_signers :: "'key \<times> nat \<Rightarrow> 'key list" where
  "selected_signers sel = [fst sel]"

subsection \<open>Concrete inputs\<close>

text \<open>
  The VM as \<open>Initialize\<close> leaves it, with transactions of type \<open>nat\<close>, a channel
  to the consensus engine of capacity one and genesis hash 7. The theorems below are
  instantiated on it.
\<close>

definition example_vm :: "nat VM" where
  "example_vm =
     \<lparr>genesisHash = 7, newBlockChan = [], networkChan = make_peer_chan 1,
      txPoolStabilizedHead = 0, txPoolStabilizedOk = make_chan 1,
      blockDelayTimer = None, bdTimerState = bdTimerStateLong,
      bdGenWaitFlag = True, bdGenFlag = False,
      atomicTxSubmitChan = make_chan 1, pendingAtomicTxs = make_chan 1024\<rparr>"

text \<open>
  A block generation that fails: the finalize-and-assemble callback runs with no
  ordinary transaction and hands nil to the builder.
\<close>

definition example_failed_GenBlock :: "nat VM \<Rightarrow> nat VM" where
  "example_failed_GenBlock vm =
     snd (snd (onFinalizeAndAssemble (\<lambda>tx st. (None, st)) (\<lambda>tx. []) () ([] :: unit list) vm))"

definition example_block :: "Hash \<Rightarrow> ethBlock" where
  "example_block h = \<lparr>block_Hash = h, block_Coinbase = 1, block_ExtraData = []\<rparr>"

text \<open>
  A decoder to instantiate \<open>parseBlock\<close> with: it rejects the empty input, and
  otherwise yields a block whose hash is the number of bytes after the first and whose
  coinbase is 1 when the first byte is zero and 2 otherwise. The verification that
  goes with it rejects the extra data 9, 9. A second decoder panics on the single
  byte 255 and is the first one otherwise.
\<close>

definition example_decode :: "byte list \<Rightarrow> (error + ethBlock) call" where
  "example_decode bs =
     (case bs of
        [] \<Rightarrow> Result (Inl (foreign_error 0))
      | c # xs \<Rightarrow>
          Result (Inr \<lparr>block_Hash = of_nat (length xs),
                       block_Coinbase = (if c = 0 then 1 else 2),
                       block_ExtraData = xs\<rparr>))"

definition example_verify :: "ethBlock \<Rightarrow> bool call" where
  "example_verify eb = Result (block_ExtraData eb \<noteq> [9, 9])"

definition example_panicking_decode :: "byte list \<Rightarrow> (error + ethBlock) call" where
  "example_panicking_decode bs = (if bs = [255] then Panic else example_decode bs)"

text \<open>A codec to instantiate the callbacks with: it fails on the empty input.\<close>

definition example_Unmarshal :: "byte list \<Rightarrow> error + nat" where
  "example_Unmarshal bs = (if bs = [] then Inl (foreign_error 2) else Inr (length bs))"

text \<open>
  An account state to instantiate the fund selection with. Of asset 2 the addresses
  1, 2 and 3 hold 0, 5 and 10; address 2 has nonce 4 and some AVAX.
\<close>

definition example_state :: StateDB where
  "example_state =
     \<lparr>GetBalance = (\<lambda>addr. if addr = 2 then 7000000005 else 0),
      GetBalanceMultiCoin =
        (\<lambda>addr coin. if coin = 2 then (if addr = 2 then 5 else if addr = 3 then 10 else 0) else 0),
      GetNonce = (\<lambda>addr. if addr = 2 then 4 else 0)\<rparr>"

text \<open>
  An account state in which every address holds \<open>2 ^ 64\<close> of every multi-coin
  asset.
\<close>

definition example_large_state :: StateDB where
  "example_large_state =
     \<lparr>GetBalance = (\<lambda>addr. 0),
      GetBalanceMultiCoin = (\<lambda>addr coin. 18446744073709551616),
      GetNonce = (\<lambda>addr. 0)\<rparr>"

section \<open>Theorems\<close>

lemma Initialize_Inr:
  "Initialize pe n je ch ist fe = Inr vm \<Longrightarrow>
     pendingAtomicTxs vm = make_chan 1024 \<and> atomicTxSubmitChan vm = make_chan 1 \<and>
     txPoolStabilizedOk vm = make_chan 1 \<and> bdTimerState vm = bdTimerStateLong \<and>
     bdGenWaitFlag vm \<and> \<not> bdGenFlag vm \<and> networkChan vm = ch"
  by (auto simp: Initialize_def Let_def split: option.splits if_splits sum.splits)

text \<open>
  C4. Submitting an atomic transaction. The queue made by \<open>Initialize\<close> has capacity
  1024. On a queue of that capacity with a free slot, \<open>issueTx\<close> appends the
  transaction and returns no error; the wake signal is added when the signal slot is
  free and the signal channel is left as it is when the slot is taken. On a full queue
  \<open>issueTx\<close> returns the error "too many pending atomic txs" and the VM, with the
  queue and the signal channel, is unchanged.
\<close>

theorem issueTx_admission:
  fixes vm :: "'tx VM"
  shows "(Initialize pe n je ch ist fe = Inr vm \<longrightarrow> cap (pendingAtomicTxs vm) = 1024)
    \<and> (cap (pendingAtomicTxs vm) = 1024 \<and> len (pendingAtomicTxs vm) < 1024 \<longrightarrow>
         issueTx tx vm =
           (None, vm\<lparr>pendingAtomicTxs :=
                        (pendingAtomicTxs vm)\<lparr>buf := buf (pendingAtomicTxs vm) @ [tx]\<rparr>,
                      atomicTxSubmitChan :=
                        (if len (atomicTxSubmitChan vm) < cap (atomicTxSubmitChan vm)
                         then (atomicTxSubmitChan vm)\<lparr>buf := buf (atomicTxSubmitChan vm) @ [()]\<rparr>
                         else atomicTxSubmitChan vm)\<rparr>))
    \<and> (cap (pendingAtomicTxs vm) = 1024 \<and> \<not> len (pendingAtomicTxs vm) < 1024 \<longrightarrow>
         issueTx tx vm = (Some errTooManyAtomicTx, vm))
    \<and> errTooManyAtomicTx = errors_New ''too many pending atomic txs''"
proof -
  have init: "Initialize pe n je ch ist fe = Inr vm \<longrightarrow> cap (pendingAtomicTxs vm) = 1024"
    using Initialize_Inr [of pe n je ch ist fe vm] by (simp add: make_chan_def)
  have free: "cap (pendingAtomicTxs vm) = 1024 \<and> len (pendingAtomicTxs vm) < 1024 \<longrightarrow>
      issueTx tx vm =
        (None, vm\<lparr>pendingAtomicTxs :=
                     (pendingAtomicTxs vm)\<lparr>buf := buf (pendingAtomicTxs vm) @ [tx]\<rparr>,
                   atomicTxSubmitChan :=
                     (if len (atomicTxSubmitChan vm) < cap (atomicTxSubmitChan vm)
                      then (atomicTxSubmitChan vm)\<lparr>buf := buf (atomicTxSubmitChan vm) @ [()]\<rparr>
                      else atomicTxSubmitChan vm)\<rparr>)"
    by (simp add: issueTx_def try_send_def)
  have full: "cap (pendingAtomicTxs vm) = 1024 \<and> \<not> len (pendingAtomicTxs vm) < 1024 \<longrightarrow>
      issueTx tx vm = (Some errTooManyAtomicTx, vm)"
    by (simp add: issueTx_def try_send_def)
  show ?thesis
    using init free full by (simp add: errTooManyAtomicTx_def)
qed

theorem issueTx_admission_witness:
  "Initialize None 0 None (make_peer_chan 1) (Inr 7) None = Inr example_vm
   \<and> issueTx 3 example_vm =
       (None, example_vm\<lparr>pendingAtomicTxs := \<lparr>buf = [3], cap = 1024\<rparr>,
                         atomicTxSubmitChan := \<lparr>buf = [()], cap = 1\<rparr>\<rparr>)
   \<and> issueTx 3 (example_vm\<lparr>pendingAtomicTxs := \<lparr>buf = replicate 1024 0, cap = 1024\<rparr>\<rparr>) =
       (Some (errors_New ''too many pending atomic txs''),
        example_vm\<lparr>pendingAtomicTxs := \<lparr>buf = replicate 1024 0, cap = 1024\<rparr>\<rparr>)"
  using issueTx_admission [where vm = example_vm and tx = 3 and pe = None and n = 0
      and je = None and ch = "make_peer_chan 1" and ist = "Inr 7" and fe = None]
    issueTx_admission [where
      vm = "example_vm\<lparr>pendingAtomicTxs := \<lparr>buf = replicate 1024 0, cap = 1024\<rparr>\<rparr>"
      and tx = 3 and pe = None and n = 0
      and je = None and ch = "make_peer_chan 1" and ist = "Inr 7" and fe = None]
  by (simp add: example_vm_def Initialize_def make_chan_def make_peer_chan_def len_def)

text \<open>
  C1. One call of the finalize-and-assemble callback takes at most one transaction
  from the pending queue, and only from its front: the queue afterwards is the queue
  before, or the queue before without its first element. The extra data it returns is
  nil with the queue untouched, or the encoding of that one first element.
\<close>

theorem onFinalizeAndAssemble_one_dequeue:
  fixes vm :: "'tx VM"
  assumes "onFinalizeAndAssemble EVMStateTransfer Marshal state txs vm = (res, state', vm')"
  shows "len (pendingAtomicTxs vm) \<le> Suc (len (pendingAtomicTxs vm'))
    \<and> cap (pendingAtomicTxs vm') = cap (pendingAtomicTxs vm)
    \<and> (buf (pendingAtomicTxs vm') = buf (pendingAtomicTxs vm)
        \<or> buf (pendingAtomicTxs vm) = hd (buf (pendingAtomicTxs vm)) # buf (pendingAtomicTxs vm'))
    \<and> (\<forall>raw. res = Inr raw \<longrightarrow>
          (raw = [] \<and> buf (pendingAtomicTxs vm) = [] \<and> vm' = vm)
          \<or> (buf (pendingAtomicTxs vm) = hd (buf (pendingAtomicTxs vm)) # buf (pendingAtomicTxs vm')
              \<and> raw = Marshal (hd (buf (pendingAtomicTxs vm)))))"
  using assms
  by (auto simp: onFinalizeAndAssemble_def try_recv_def len_def Let_def
      split: list.splits option.splits prod.splits if_splits)

theorem onFinalizeAndAssemble_one_dequeue_witness:
  "onFinalizeAndAssemble (\<lambda>tx st. (None, st + tx)) (\<lambda>tx. [of_nat tx]) (0::nat) ([]::nat list)
       (example_vm\<lparr>pendingAtomicTxs := \<lparr>buf = [3, 4], cap = 1024\<rparr>\<rparr>) =
     (Inr [3], 3, example_vm\<lparr>pendingAtomicTxs := \<lparr>buf = [4], cap = 1024\<rparr>\<rparr>)
   \<and> len (pendingAtomicTxs (example_vm\<lparr>pendingAtomicTxs := \<lparr>buf = [3, 4], cap = 1024\<rparr>\<rparr>))
       \<le> Suc (len (pendingAtomicTxs (example_vm\<lparr>pendingAtomicTxs := \<lparr>buf = [4], cap = 1024\<rparr>\<rparr>)))"
proof -
  have run: "onFinalizeAndAssemble (\<lambda>tx st. (None, st + tx)) (\<lambda>tx. [of_nat tx]) (0::nat)
       ([]::nat list) (example_vm\<lparr>pendingAtomicTxs := \<lparr>buf = [3, 4], cap = 1024\<rparr>\<rparr>) =
     (Inr [3], 3, example_vm\<lparr>pendingAtomicTxs := \<lparr>buf = [4], cap = 1024\<rparr>\<rparr>)"
    by (simp add: onFinalizeAndAssemble_def try_recv_def example_vm_def)
  show ?thesis
    using run onFinalizeAndAssemble_one_dequeue [OF run] by simp
qed


lemma tryBlockGen_keeps_timer:
  "bdTimerState (snd (tryBlockGen ps vm)) = bdTimerState vm
   \<and> blockDelayTimer (snd (tryBlockGen ps vm)) = blockDelayTimer vm"
  by (simp add: tryBlockGen_def Let_def split: sum.splits option.splits)

text \<open>
  C5. One call of \<open>tryBlockGen\<close>. With a generation in flight it changes nothing.
  Otherwise it sets the wait flag and, given the size of the ordinary pending pool:
  it sends nothing when that size is zero and the atomic queue is empty; it sends
  nothing in state Min; in state Max it sends nothing when the size is below the batch
  size 250; in state Max with a size of at least 250, and in state Long with pending
  work, it tries a non-blocking send of \<open>PendingTxs\<close> on the channel to the
  consensus engine, whatever the capacity of that channel. When a receiver is parked
  on the channel the message is handed to it, otherwise with room in the buffer the
  message is appended; in both cases the in-flight flag is set and there is no error.
  When the channel is full, that is no receiver is parked and the buffer has no room,
  the result is the error "too frequent block issuance", with the channel unchanged
  and the in-flight flag not set.
\<close>

theorem tryBlockGen_cases:
  fixes vm :: "'tx VM"
  shows
  "(bdGenFlag vm \<longrightarrow> tryBlockGen ps vm = (None, vm))
   \<and> (\<not> bdGenFlag vm \<and> size' = 0 \<and> len (pendingAtomicTxs vm) = 0 \<longrightarrow>
        tryBlockGen (Inr size') vm = (None, vm\<lparr>bdGenWaitFlag := True\<rparr>))
   \<and> (\<not> bdGenFlag vm \<and> bdTimerState vm = bdTimerStateMin \<longrightarrow>
        tryBlockGen (Inr size') vm = (None, vm\<lparr>bdGenWaitFlag := True\<rparr>))
   \<and> (\<not> bdGenFlag vm \<and> bdTimerState vm = bdTimerStateMax \<and> size' < 250 \<longrightarrow>
        tryBlockGen (Inr size') vm = (None, vm\<lparr>bdGenWaitFlag := True\<rparr>))
   \<and> (\<not> bdGenFlag vm \<and> \<not> (size' = 0 \<and> len (pendingAtomicTxs vm) = 0) \<and>
        (bdTimerState vm = bdTimerStateMax \<and> 250 \<le> size' \<or> bdTimerState vm = bdTimerStateLong) \<longrightarrow>
        tryBlockGen (Inr size') vm =
          (if 0 < parked (networkChan vm)
           then (None, vm\<lparr>bdGenWaitFlag := True,
                           networkChan := (networkChan vm)
                             \<lparr>parked := parked (networkChan vm) - 1,
                              handed := handed (networkChan vm) @ [PendingTxs]\<rparr>,
                           bdGenFlag := True\<rparr>)
           else if len (networkChan vm) < cap (networkChan vm)
           then (None, vm\<lparr>bdGenWaitFlag := True,
                           networkChan := (networkChan vm)\<lparr>buf := buf (networkChan vm) @ [PendingTxs]\<rparr>,
                           bdGenFlag := True\<rparr>)
           else (Some errBlockFrequency, vm\<lparr>bdGenWaitFlag := True\<rparr>)))
   \<and> errBlockFrequency = errors_New ''too frequent block issuance''"
proof -
  have inflight: "bdGenFlag vm \<longrightarrow> tryBlockGen ps vm = (None, vm)"
    by (simp add: tryBlockGen_def)
  have nowork: "\<not> bdGenFlag vm \<and> size' = 0 \<and> len (pendingAtomicTxs vm) = 0 \<longrightarrow>
        tryBlockGen (Inr size') vm = (None, vm\<lparr>bdGenWaitFlag := True\<rparr>)"
    by (simp add: tryBlockGen_def Let_def)
  have st_min: "\<not> bdGenFlag vm \<and> bdTimerState vm = bdTimerStateMin \<longrightarrow>
        tryBlockGen (Inr size') vm = (None, vm\<lparr>bdGenWaitFlag := True\<rparr>)"
    by (simp add: tryBlockGen_def Let_def)
  have st_max: "\<not> bdGenFlag vm \<and> bdTimerState vm = bdTimerStateMax \<and> size' < 250 \<longrightarrow>
        tryBlockGen (Inr size') vm = (None, vm\<lparr>bdGenWaitFlag := True\<rparr>)"
    by (simp add: tryBlockGen_def batchSize_def Let_def)
  have send: "\<not> bdGenFlag vm \<and> \<not> (size' = 0 \<and> len (pendingAtomicTxs vm) = 0) \<and>
        (bdTimerState vm = bdTimerStateMax \<and> 250 \<le> size' \<or> bdTimerState vm = bdTimerStateLong) \<longrightarrow>
        tryBlockGen (Inr size') vm =
          (if 0 < parked (networkChan vm)
           then (None, vm\<lparr>bdGenWaitFlag := True,
                           networkChan := (networkChan vm)
                             \<lparr>parked := parked (networkChan vm) - 1,
                              handed := handed (networkChan vm) @ [PendingTxs]\<rparr>,
                           bdGenFlag := True\<rparr>)
           else if len (networkChan vm) < cap (networkChan vm)
           then (None, vm\<lparr>bdGenWaitFlag := True,
                           networkChan := (networkChan vm)\<lparr>buf := buf (networkChan vm) @ [PendingTxs]\<rparr>,
                           bdGenFlag := True\<rparr>)
           else (Some errBlockFrequency, vm\<lparr>bdGenWaitFlag := True\<rparr>))"
    by (auto simp: tryBlockGen_def batchSize_def try_send_peer_def bdTimerState_defs Let_def)
  show ?thesis
    using inflight nowork st_min st_max send by (simp add: errBlockFrequency_def)
qed

theorem tryBlockGen_cases_witness:
  "tryBlockGen (Inr 1) (example_vm\<lparr>bdGenFlag := True\<rparr>) = (None, example_vm\<lparr>bdGenFlag := True\<rparr>)
   \<and> tryBlockGen (Inr 0) (example_vm\<lparr>bdGenWaitFlag := False\<rparr>) = (None, example_vm)
   \<and> tryBlockGen (Inr 1000) (example_vm\<lparr>bdTimerState := bdTimerStateMin\<rparr>) =
       (None, example_vm\<lparr>bdTimerState := bdTimerStateMin\<rparr>)
   \<and> tryBlockGen (Inr 249) (example_vm\<lparr>bdTimerState := bdTimerStateMax\<rparr>) =
       (None, example_vm\<lparr>bdTimerState := bdTimerStateMax\<rparr>)
   \<and> tryBlockGen (Inr 250) (example_vm\<lparr>bdTimerState := bdTimerStateMax\<rparr>) =
       (None, example_vm\<lparr>bdTimerState := bdTimerStateMax,
                         networkChan := \<lparr>buf = [PendingTxs], cap = 1, parked = 0, handed = []\<rparr>,
                         bdGenFlag := True\<rparr>)
   \<and> tryBlockGen (Inr 1) example_vm =
       (None, example_vm\<lparr>networkChan := \<lparr>buf = [PendingTxs], cap = 1, parked = 0, handed = []\<rparr>,
                         bdGenFlag := True\<rparr>)
   \<and> tryBlockGen (Inr 1)
         (example_vm\<lparr>networkChan := \<lparr>buf = [PendingTxs], cap = 1, parked = 0, handed = []\<rparr>\<rparr>) =
       (Some (errors_New ''too frequent block issuance''),
        example_vm\<lparr>networkChan := \<lparr>buf = [PendingTxs], cap = 1, parked = 0, handed = []\<rparr>\<rparr>)
   \<and> tryBlockGen (Inr 1)
         (example_vm\<lparr>networkChan := \<lparr>buf = [], cap = 0, parked = 1, handed = []\<rparr>\<rparr>) =
       (None, example_vm\<lparr>networkChan := \<lparr>buf = [], cap = 0, parked = 0, handed = [PendingTxs]\<rparr>,
                         bdGenFlag := True\<rparr>)
   \<and> tryBlockGen (Inr 1)
         (example_vm\<lparr>networkChan := \<lparr>buf = [], cap = 0, parked = 0, handed = []\<rparr>\<rparr>) =
       (Some (errors_New ''too frequent block issuance''),
        example_vm\<lparr>networkChan := \<lparr>buf = [], cap = 0, parked = 0, handed = []\<rparr>\<rparr>)"
  using tryBlockGen_cases [where vm = "example_vm\<lparr>bdGenFlag := True\<rparr>" and ps = "Inr 1" and size' = 1]
    tryBlockGen_cases [where vm = "example_vm\<lparr>bdGenWaitFlag := False\<rparr>" and size' = 0]
    tryBlockGen_cases [where vm = "example_vm\<lparr>bdTimerState := bdTimerStateMin\<rparr>" and size' = 1000]
    tryBlockGen_cases [where vm = "example_vm\<lparr>bdTimerState := bdTimerStateMax\<rparr>" and size' = 249]
    tryBlockGen_cases [where vm = "example_vm\<lparr>bdTimerState := bdTimerStateMax\<rparr>" and size' = 250]
    tryBlockGen_cases [where vm = "example_vm" and size' = 1]
    tryBlockGen_cases [where
      vm = "example_vm\<lparr>networkChan := \<lparr>buf = [PendingTxs], cap = 1, parked = 0, handed = []\<rparr>\<rparr>"
      and size' = 1]
    tryBlockGen_cases [where
      vm = "example_vm\<lparr>networkChan := \<lparr>buf = [], cap = 0, parked = 1, handed = []\<rparr>\<rparr>"
      and size' = 1]
    tryBlockGen_cases [where
      vm = "example_vm\<lparr>networkChan := \<lparr>buf = [], cap = 0, parked = 0, handed = []\<rparr>\<rparr>"
      and size' = 1]
  by (simp add: example_vm_def make_chan_def make_peer_chan_def len_def bdTimerState_defs)

text \<open>
  C7. The timer of the scheduler. \<open>Initialize\<close> leaves the state Long. When the
  timer fires in state Min the state becomes Max and the timer is armed again with
  the maximum minus the minimum block time, clamped at zero from below, which is
  750 ms; in state Max the state becomes Long and the timer is not armed; in state
  Long the state stays. In each case, when the wait flag was set, \<open>tryBlockGen\<close>
  runs right after on the state so changed, and it changes neither the timer state nor
  the timer.
\<close>

theorem blockDelayTimer_transitions:
  fixes vm :: "'tx VM"
  shows
  "(Initialize pe n je ch ist fe = Inr vm \<longrightarrow> bdTimerState vm = bdTimerStateLong)
   \<and> (bdTimerState vm = bdTimerStateMin \<longrightarrow>
        blockDelayTimer_handler ps vm =
          (if bdGenWaitFlag vm
           then snd (tryBlockGen ps (vm\<lparr>bdTimerState := bdTimerStateMax,
                                        blockDelayTimer := Some (max (maxBlockTime - minBlockTime) 0)\<rparr>))
           else vm\<lparr>bdTimerState := bdTimerStateMax,
                   blockDelayTimer := Some (max (maxBlockTime - minBlockTime) 0)\<rparr>)
        \<and> bdTimerState (blockDelayTimer_handler ps vm) = bdTimerStateMax
        \<and> blockDelayTimer (blockDelayTimer_handler ps vm) = Some (750 * Millisecond))
   \<and> (bdTimerState vm = bdTimerStateMax \<longrightarrow>
        blockDelayTimer_handler ps vm =
          (if bdGenWaitFlag vm then snd (tryBlockGen ps (vm\<lparr>bdTimerState := bdTimerStateLong\<rparr>))
           else vm\<lparr>bdTimerState := bdTimerStateLong\<rparr>)
        \<and> bdTimerState (blockDelayTimer_handler ps vm) = bdTimerStateLong
        \<and> blockDelayTimer (blockDelayTimer_handler ps vm) = blockDelayTimer vm)
   \<and> (bdTimerState vm = bdTimerStateLong \<longrightarrow>
        blockDelayTimer_handler ps vm = (if bdGenWaitFlag vm then snd (tryBlockGen ps vm) else vm)
        \<and> bdTimerState (blockDelayTimer_handler ps vm) = bdTimerStateLong
        \<and> blockDelayTimer (blockDelayTimer_handler ps vm) = blockDelayTimer vm)
   \<and> maxDuration x 0 = max x 0"
proof -
  have init: "Initialize pe n je ch ist fe = Inr vm \<longrightarrow> bdTimerState vm = bdTimerStateLong"
    using Initialize_Inr [of pe n je ch ist fe vm] by simp
  have clamp: "maxDuration y 0 = max y 0" for y
    by (simp add: maxDuration_def)
  have ms: "max (maxBlockTime - minBlockTime) 0 = 750 * Millisecond"
    by (simp add: maxBlockTime_def minBlockTime_def Millisecond_def)
  have st_min: "bdTimerState vm = bdTimerStateMin \<longrightarrow>
        blockDelayTimer_handler ps vm =
          (if bdGenWaitFlag vm
           then snd (tryBlockGen ps (vm\<lparr>bdTimerState := bdTimerStateMax,
                                        blockDelayTimer := Some (max (maxBlockTime - minBlockTime) 0)\<rparr>))
           else vm\<lparr>bdTimerState := bdTimerStateMax,
                   blockDelayTimer := Some (max (maxBlockTime - minBlockTime) 0)\<rparr>)"
    by (simp add: blockDelayTimer_handler_def clamp Let_def)
  have st_max: "bdTimerState vm = bdTimerStateMax \<longrightarrow>
        blockDelayTimer_handler ps vm =
          (if bdGenWaitFlag vm then snd (tryBlockGen ps (vm\<lparr>bdTimerState := bdTimerStateLong\<rparr>))
           else vm\<lparr>bdTimerState := bdTimerStateLong\<rparr>)"
    by (simp add: blockDelayTimer_handler_def Let_def bdTimerState_defs)
  have st_long: "bdTimerState vm = bdTimerStateLong \<longrightarrow>
        blockDelayTimer_handler ps vm = (if bdGenWaitFlag vm then snd (tryBlockGen ps vm) else vm)"
    by (simp add: blockDelayTimer_handler_def Let_def bdTimerState_defs)
  show ?thesis
    using init st_min st_max st_long clamp [of x]
    by (simp add: tryBlockGen_keeps_timer ms)
qed

theorem blockDelayTimer_transitions_witness:
  "Initialize None 0 None (make_peer_chan 1) (Inr 7) None = Inr example_vm
   \<and> bdTimerState example_vm = bdTimerStateLong
   \<and> blockDelayTimer_handler (Inr 0) (example_vm\<lparr>bdTimerState := bdTimerStateMin\<rparr>) =
       example_vm\<lparr>bdTimerState := bdTimerStateMax, blockDelayTimer := Some 750000000\<rparr>
   \<and> blockDelayTimer_handler (Inr 0) (example_vm\<lparr>bdTimerState := bdTimerStateMax\<rparr>) = example_vm
   \<and> blockDelayTimer_handler (Inr 0) example_vm = example_vm
   \<and> blockDelayTimer_handler (Inr 1) example_vm =
       example_vm\<lparr>networkChan := \<lparr>buf = [PendingTxs], cap = 1, parked = 0, handed = []\<rparr>, bdGenFlag := True\<rparr>"
  using blockDelayTimer_transitions [where vm = example_vm and pe = None and n = 0
      and je = None and ch = "make_peer_chan 1" and ist = "Inr 7" and fe = None and ps = "Inr 0" and x = 1]
    blockDelayTimer_transitions [where vm = "example_vm\<lparr>bdTimerState := bdTimerStateMin\<rparr>" and ps = "Inr 0"
      and pe = None and n = 0 and je = None and ch = "make_peer_chan 1" and ist = "Inr 7" and fe = None and x = 1]
    blockDelayTimer_transitions [where vm = "example_vm\<lparr>bdTimerState := bdTimerStateMax\<rparr>" and ps = "Inr 0"
      and pe = None and n = 0 and je = None and ch = "make_peer_chan 1" and ist = "Inr 7" and fe = None and x = 1]
    blockDelayTimer_transitions [where vm = example_vm and pe = None and n = 0
      and je = None and ch = "make_peer_chan 1" and ist = "Inr 7" and fe = None and ps = "Inr 1" and x = 1]
  by (simp add: example_vm_def Initialize_def make_chan_def make_peer_chan_def len_def
      bdTimerState_defs tryBlockGen_def try_send_peer_def maxBlockTime_def minBlockTime_def
      Millisecond_def)

text \<open>When the engine hands over a block, \<open>buildBlock\<close> resets the scheduler.\<close>

lemma buildBlock_success_resets:
  assumes "newBlockChan (GenBlock vm) = Some blk # rest"
  shows "bdTimerState (snd (buildBlock GenBlock vm)) = bdTimerStateMin
    \<and> \<not> bdGenWaitFlag (snd (buildBlock GenBlock vm))
    \<and> \<not> bdGenFlag (snd (buildBlock GenBlock vm))
    \<and> blockDelayTimer (snd (buildBlock GenBlock vm)) = Some minBlockTime"
  using assms by (simp add: buildBlock_def Let_def split: option.splits)

text \<open>
  C6. The claim is that after every build attempt, failed ones included, the scheduler
  state is Min, both flags are cleared and the timer is armed with the minimum block
  time. \<open>buildBlock\<close> returns \<open>errCreateBlock\<close> before it reaches the reset.
  Here a proposal is in flight in state Long and the generation fails: the build
  returns the error and the VM is as before, in state Long, with both flags set and
  the timer not armed; after that \<open>tryBlockGen\<close> changes nothing, whatever the
  pending size, because the in-flight flag stays set.
\<close>

theorem buildBlock_failure_no_reset:
  "example_failed_GenBlock (example_vm\<lparr>bdGenFlag := True\<rparr>) =
     example_vm\<lparr>bdGenFlag := True, newBlockChan := [None]\<rparr>
   \<and> buildBlock example_failed_GenBlock (example_vm\<lparr>bdGenFlag := True\<rparr>) =
       (Returns (Inl errCreateBlock), example_vm\<lparr>bdGenFlag := True\<rparr>)
   \<and> bdTimerState (example_vm\<lparr>bdGenFlag := True\<rparr>) = bdTimerStateLong
   \<and> bdTimerStateLong \<noteq> bdTimerStateMin
   \<and> bdGenWaitFlag (example_vm\<lparr>bdGenFlag := True\<rparr>)
   \<and> bdGenFlag (example_vm\<lparr>bdGenFlag := True\<rparr>)
   \<and> blockDelayTimer (example_vm\<lparr>bdGenFlag := True\<rparr>) = None
   \<and> tryBlockGen (Inr 1000) (example_vm\<lparr>bdGenFlag := True\<rparr>) =
       (None, example_vm\<lparr>bdGenFlag := True\<rparr>)"
  by (simp add: example_failed_GenBlock_def onFinalizeAndAssemble_def try_recv_def
      buildBlock_def tryBlockGen_def example_vm_def make_chan_def make_peer_chan_def
      bdTimerState_defs)






text \<open>
  C9. \<open>parseBlock\<close> panics exactly when the decoder panics on the bytes, or the
  bytes decode to a block on which the verification panics: it adds no panic of its
  own. With a decoder and a verification that return on every input, as the
  specification has them, \<open>parseBlock\<close> never panics: on every byte sequence it
  returns a block or an error. It returns a block exactly when the bytes decode to a
  block that passes the structural verification and either has the genesis hash or
  has the burn address as coinbase; the block returned wraps the decoded one under its
  hash. It returns an error exactly when that is the error of the decoder, or the
  bytes decode and the error is "invalid block", the decoded block failing the
  verification or having neither the genesis hash nor the burn address as coinbase.
\<close>

theorem parseBlock_result:
  fixes vm :: "'tx VM"
  shows
  "(parseBlock D V B vm b = Panic \<longleftrightarrow>
      D b = Panic \<or> (\<exists>eb. D b = Result (Inr eb) \<and> V eb = Panic))
   \<and> (collaborators_return D V \<longrightarrow>
        (\<forall>bytes. parseBlock D V B vm bytes \<noteq> Panic
           \<and> ((\<exists>blk. parseBlock D V B vm bytes = Result (Inr blk))
               \<or> (\<exists>e. parseBlock D V B vm bytes = Result (Inl e)))))
   \<and> (parseBlock D V B vm b = Result (Inr blk) \<longleftrightarrow>
        (\<exists>eb. D b = Result (Inr eb) \<and> V eb = Result True
           \<and> (block_Hash eb = genesisHash vm \<or> block_Coinbase eb = B)
           \<and> blk = \<lparr>block_id = block_Hash eb, block_ethBlock = eb\<rparr>))
   \<and> (parseBlock D V B vm b = Result (Inl e) \<longleftrightarrow>
        D b = Result (Inl e)
        \<or> (\<exists>eb. D b = Result (Inr eb) \<and> e = errInvalidBlock
              \<and> (V eb = Result False
                  \<or> (V eb = Result True \<and> block_Hash eb \<noteq> genesisHash vm
                      \<and> block_Coinbase eb \<noteq> B))))
   \<and> errInvalidBlock = errors_New ''invalid block''"
proof -
  have panics: "parseBlock D V B vm b = Panic \<longleftrightarrow>
      D b = Panic \<or> (\<exists>eb. D b = Result (Inr eb) \<and> V eb = Panic)"
    by (auto simp: parseBlock_def Let_def split: call.splits sum.splits)
  have returns: "collaborators_return D V \<longrightarrow>
        (\<forall>bytes. parseBlock D V B vm bytes \<noteq> Panic
           \<and> ((\<exists>blk. parseBlock D V B vm bytes = Result (Inr blk))
               \<or> (\<exists>e. parseBlock D V B vm bytes = Result (Inl e))))"
  proof (intro impI allI)
    fix bytes
    assume env: "collaborators_return D V"
    have "parseBlock D V B vm bytes = Panic \<longleftrightarrow>
        D bytes = Panic \<or> (\<exists>eb. D bytes = Result (Inr eb) \<and> V eb = Panic)"
      by (auto simp: parseBlock_def Let_def split: call.splits sum.splits)
    with env have no_panic: "parseBlock D V B vm bytes \<noteq> Panic"
      by (simp add: collaborators_return_def)
    then obtain r where "parseBlock D V B vm bytes = Result r"
      by (cases "parseBlock D V B vm bytes") simp_all
    then have "(\<exists>blk. parseBlock D V B vm bytes = Result (Inr blk))
        \<or> (\<exists>e. parseBlock D V B vm bytes = Result (Inl e))"
      by (cases r) simp_all
    with no_panic show "parseBlock D V B vm bytes \<noteq> Panic
           \<and> ((\<exists>blk. parseBlock D V B vm bytes = Result (Inr blk))
               \<or> (\<exists>e. parseBlock D V B vm bytes = Result (Inl e)))"
      by (rule conjI)
  qed
  have ok: "parseBlock D V B vm b = Result (Inr blk) \<longleftrightarrow>
        (\<exists>eb. D b = Result (Inr eb) \<and> V eb = Result True
           \<and> (block_Hash eb = genesisHash vm \<or> block_Coinbase eb = B)
           \<and> blk = \<lparr>block_id = block_Hash eb, block_ethBlock = eb\<rparr>)"
    by (auto simp: parseBlock_def Let_def split: call.splits sum.splits)
  have err: "parseBlock D V B vm b = Result (Inl e) \<longleftrightarrow>
        D b = Result (Inl e)
        \<or> (\<exists>eb. D b = Result (Inr eb) \<and> e = errInvalidBlock
              \<and> (V eb = Result False
                  \<or> (V eb = Result True \<and> block_Hash eb \<noteq> genesisHash vm
                      \<and> block_Coinbase eb \<noteq> B)))"
    by (auto simp: parseBlock_def Let_def split: call.splits sum.splits)
  have msg: "errInvalidBlock = errors_New ''invalid block''"
    by (simp add: errInvalidBlock_def)
  show ?thesis
    by (rule conjI [OF panics conjI [OF returns conjI [OF ok conjI [OF err msg]]]])
qed

theorem parseBlock_result_witness:
  "collaborators_return example_decode example_verify
   \<and> parseBlock example_decode example_verify 1 example_vm [255] \<noteq> Panic
   \<and> parseBlock example_decode example_verify 1 example_vm [] =
       Result (Inl (foreign_error 0))
   \<and> parseBlock example_decode example_verify 1 example_vm [0, 9] =
       Result (Inr \<lparr>block_id = 1,
            block_ethBlock = \<lparr>block_Hash = 1, block_Coinbase = 1, block_ExtraData = [9]\<rparr>\<rparr>)
   \<and> parseBlock example_decode example_verify 1 example_vm [5, 9] =
       Result (Inl errInvalidBlock)
   \<and> parseBlock example_decode example_verify 1 example_vm [0, 9, 9] =
       Result (Inl errInvalidBlock)
   \<and> parseBlock example_decode example_verify 1 example_vm [5, 1, 2, 3, 4, 5, 6, 7] =
       Result (Inr \<lparr>block_id = 7,
            block_ethBlock = \<lparr>block_Hash = 7, block_Coinbase = 2,
                              block_ExtraData = [1, 2, 3, 4, 5, 6, 7]\<rparr>\<rparr>)"
proof -
  have env: "collaborators_return example_decode example_verify"
    by (simp add: collaborators_return_def example_decode_def example_verify_def
        split: list.splits)
  have np: "parseBlock example_decode example_verify 1 example_vm [255] \<noteq> Panic"
    using parseBlock_result [where D = example_decode and V = example_verify and B = 1
        and vm = example_vm, THEN conjunct2, THEN conjunct1] env
    by simp
  have r0: "parseBlock example_decode example_verify 1 example_vm [] =
       Result (Inl (foreign_error 0))"
    using parseBlock_result [where D = example_decode and V = example_verify and B = 1
        and vm = example_vm and b = "[]" and e = "foreign_error 0",
        THEN conjunct2, THEN conjunct2, THEN conjunct2, THEN conjunct1]
    by (simp add: example_decode_def)
  have r1: "parseBlock example_decode example_verify 1 example_vm [0, 9] =
       Result (Inr \<lparr>block_id = 1,
            block_ethBlock = \<lparr>block_Hash = 1, block_Coinbase = 1, block_ExtraData = [9]\<rparr>\<rparr>)"
    using parseBlock_result [where D = example_decode and V = example_verify and B = 1
        and vm = example_vm and b = "[0, 9]"
        and blk = "\<lparr>block_id = 1,
            block_ethBlock = \<lparr>block_Hash = 1, block_Coinbase = 1, block_ExtraData = [9]\<rparr>\<rparr>",
        THEN conjunct2, THEN conjunct2, THEN conjunct1]
    by (simp add: example_decode_def example_verify_def)
  have r2: "parseBlock example_decode example_verify 1 example_vm [5, 9] =
       Result (Inl errInvalidBlock)"
    using parseBlock_result [where D = example_decode and V = example_verify and B = 1
        and vm = example_vm and b = "[5, 9]" and e = errInvalidBlock,
        THEN conjunct2, THEN conjunct2, THEN conjunct2, THEN conjunct1]
    by (simp add: example_decode_def example_verify_def example_vm_def)
  have r3: "parseBlock example_decode example_verify 1 example_vm [0, 9, 9] =
       Result (Inl errInvalidBlock)"
    using parseBlock_result [where D = example_decode and V = example_verify and B = 1
        and vm = example_vm and b = "[0, 9, 9]" and e = errInvalidBlock,
        THEN conjunct2, THEN conjunct2, THEN conjunct2, THEN conjunct1]
    by (simp add: example_decode_def example_verify_def)
  have r4: "parseBlock example_decode example_verify 1 example_vm [5, 1, 2, 3, 4, 5, 6, 7] =
       Result (Inr \<lparr>block_id = 7,
            block_ethBlock = \<lparr>block_Hash = 7, block_Coinbase = 2,
                              block_ExtraData = [1, 2, 3, 4, 5, 6, 7]\<rparr>\<rparr>)"
    using parseBlock_result [where D = example_decode and V = example_verify and B = 1
        and vm = example_vm and b = "[5, 1, 2, 3, 4, 5, 6, 7]"
        and blk = "\<lparr>block_id = 7,
            block_ethBlock = \<lparr>block_Hash = 7, block_Coinbase = 2,
                              block_ExtraData = [1, 2, 3, 4, 5, 6, 7]\<rparr>\<rparr>",
        THEN conjunct2, THEN conjunct2, THEN conjunct1]
    by (simp add: example_decode_def example_verify_def example_vm_def)
  show ?thesis
    by (rule conjI [OF env conjI [OF np conjI [OF r0 conjI [OF r1 conjI [OF r2
          conjI [OF r3 r4]]]]]])
qed

text \<open>
  With a decoder that panics, \<open>parseBlock\<close> panics: nothing in it catches a panic.
\<close>

lemma parseBlock_propagates_panic:
  "example_panicking_decode [255] = Panic
   \<and> parseBlock example_panicking_decode example_verify 1 example_vm [255] = Panic"
  by (simp add: parseBlock_def example_panicking_decode_def)

text \<open>
  C10. When the extra data of a block does not decode as an atomic transaction,
  \<open>extractAtomicTx\<close> returns nil, and the extra-state-change callback returns no
  error and leaves the state as it is, whatever the state transfer would do.
\<close>

theorem extractAtomicTx_decode_failure:
  assumes "Unmarshal (block_ExtraData block) = Inl err"
  shows "extractAtomicTx Unmarshal Sign block = None
    \<and> onExtraStateChange Unmarshal Sign EVMStateTransfer block state = (None, state)"
  using assms by (simp add: extractAtomicTx_def onExtraStateChange_def)

theorem extractAtomicTx_decode_failure_witness:
  "example_Unmarshal (block_ExtraData (example_block 5)) = Inl (foreign_error 2)
   \<and> extractAtomicTx example_Unmarshal Suc (example_block 5) = None
   \<and> onExtraStateChange example_Unmarshal Suc (\<lambda>tx st. (Some (foreign_error 3), st + tx))
        (example_block 5) (10::nat) = (None, 10)"
proof -
  have fails: "example_Unmarshal (block_ExtraData (example_block 5)) = Inl (foreign_error 2)"
    by (simp add: example_Unmarshal_def example_block_def)
  show ?thesis
    using fails
      extractAtomicTx_decode_failure [where Unmarshal = example_Unmarshal
        and block = "example_block 5" and err = "foreign_error 2" and Sign = Suc
        and EVMStateTransfer = "\<lambda>tx st. (Some (foreign_error 3), st + tx)"
        and state = "10::nat"]
    by simp
qed

lemma fund_selector_spec_missing:
  "snd (fund_selector_spec bal ks r) = r - sum_list (map bal ks)"
  by (induction ks arbitrary: r) (auto simp: Let_def min_def)

lemma fund_selector_spec_zero:
  "fund_selector_spec bal ks 0 = ([], 0)"
  by (cases ks) simp_all

lemma fund_selector_spec_total:
  "sum_list (map snd (fst (fund_selector_spec bal ks r))) = min r (sum_list (map bal ks))"
proof (induction ks arbitrary: r)
  case Nil
  then show ?case by simp
next
  case (Cons k ks)
  show ?case
  proof (cases "r = 0 \<or> bal k = 0")
    case True
    then show ?thesis
      using Cons.IH [of r] by auto
  next
    case False
    then have pos: "0 < r" "bal k \<noteq> 0"
      by auto
    have cover: "bal k + min (r - bal k) S = min r (bal k + S)" if "bal k \<le> r" for S
      using that by arith
    have short: "r = min r (bal k + S)" if "\<not> bal k \<le> r" for S
      using that by arith
    show ?thesis
    proof (cases "bal k \<le> r")
      case True
      then have "sum_list (map snd (fst (fund_selector_spec bal (k # ks) r))) =
          bal k + min (r - bal k) (sum_list (map bal ks))"
        using pos Cons.IH [of "r - bal k"] by (simp add: Let_def min_absorb1)
      also have "\<dots> = min r (sum_list (map bal (k # ks)))"
        unfolding list.map sum_list.Cons using True by (rule cover)
      finally show ?thesis .
    next
      case False
      then have "sum_list (map snd (fst (fund_selector_spec bal (k # ks) r))) = r"
        using pos by (simp add: Let_def min_absorb2 fund_selector_spec_zero)
      also have "\<dots> = min r (sum_list (map bal (k # ks)))"
        unfolding list.map sum_list.Cons using False by (rule short)
      finally show ?thesis .
    qed
  qed
qed

lemma fund_selector_spec_sum:
  "sum_list (map snd (fst (fund_selector_spec bal ks r))) + snd (fund_selector_spec bal ks r) = r"
  by (simp add: fund_selector_spec_total fund_selector_spec_missing min_def)

lemma fund_selector_spec_subseq:
  "subseq (map fst (fst (fund_selector_spec bal ks r))) ks"
  by (induction ks arbitrary: r) (auto simp: Let_def)

lemma fund_selector_spec_amounts:
  "(k, t) \<in> set (fst (fund_selector_spec bal ks r)) \<Longrightarrow> 0 < t \<and> t \<le> bal k \<and> t \<le> r \<and> k \<in> set ks"
proof (induction ks arbitrary: r)
  case Nil
  then show ?case by simp
next
  case (Cons x xs)
  then show ?case
    by (fastforce simp: Let_def min_def split: if_splits)
qed

lemma GetSpendableFunds_loop_spec:
  "GetSpendableFunds_loop G a (Inr st) st aid keys ins sgs amt =
     Inr (ins @ map (selected_input G st aid)
                  (fst (fund_selector_spec (read_balance G a st aid) keys (unat amt))),
          sgs @ map selected_signers
                  (fst (fund_selector_spec (read_balance G a st aid) keys (unat amt))),
          of_nat (snd (fund_selector_spec (read_balance G a st aid) keys (unat amt))))"
proof (induction keys arbitrary: ins sgs amt)
  case Nil
  then show ?case by simp
next
  case (Cons key keys)
  let ?b = "balance_of a st aid (G key)"
  show ?case
  proof (cases "amt = 0")
    case True
    then show ?thesis by simp
  next
    case amt: False
    then have pos: "0 < unat amt"
      by (simp add: unat_gt_0)
    show ?thesis
    proof (cases "?b = 0")
      case True
      then have "read_balance G a st aid key = 0"
        by (simp add: read_balance_def)
      with amt pos True Cons.IH [of ins sgs amt] show ?thesis
        by (simp add: Let_def)
    next
      case bal: False
      define take where "take = (if amt < ?b then amt else ?b)"
      have kb: "read_balance G a st aid key \<noteq> 0"
        using bal by (simp add: read_balance_def unat_eq_0)
      have take_nat: "unat take = min (read_balance G a st aid key) (unat amt)"
        by (auto simp: take_def read_balance_def word_less_nat_alt min_def)
      have "take \<le> amt"
        by (auto simp: take_def)
      then have rest: "unat (amt - take) = unat amt - unat take"
        by (rule unat_sub)
      have nonce: "GetAcceptedNonce (Inr st) (G key) = Inr (GetNonce st (G key))"
        by (simp add: GetAcceptedNonce_def)
      have step: "GetSpendableFunds_loop G a (Inr st) st aid (key # keys) ins sgs amt =
          GetSpendableFunds_loop G a (Inr st) st aid keys
            (ins @ [\<lparr>Address = G key, Amount = take, AssetID = aid, Nonce = GetNonce st (G key)\<rparr>])
            (sgs @ [[key]]) (amt - take)"
        using amt bal nonce by (simp add: Let_def take_def)
      have inp: "selected_input G st aid (key, unat take) =
          \<lparr>Address = G key, Amount = take, AssetID = aid, Nonce = GetNonce st (G key)\<rparr>"
        by (simp add: selected_input_def)
      show ?thesis
        unfolding step Cons.IH
        using pos kb inp
        by (simp add: Let_def rest take_nat [symmetric] selected_signers_def)
    qed
  qed
qed


lemma fund_selector_spec_missing_le:
  "snd (fund_selector_spec bal ks (unat (amt :: uint64))) < 2 ^ 64"
proof -
  have "snd (fund_selector_spec bal ks (unat amt)) \<le> unat amt"
    by (simp add: fund_selector_spec_missing)
  moreover have "unat amt < 2 ^ 64"
    using unsigned_less [of amt] by simp
  ultimately show ?thesis by linarith
qed

lemma GetSpendableFunds_spec:
  "GetSpendableFunds G a (Inr st) keys aid amount =
     (if 0 < snd (fund_selector_spec (read_balance G a st aid) keys (unat amount))
      then Inl errInsufficientFunds
      else Inr (map (selected_input G st aid)
                  (fst (fund_selector_spec (read_balance G a st aid) keys (unat amount))),
                map selected_signers
                  (fst (fund_selector_spec (read_balance G a st aid) keys (unat amount)))))"
proof -
  let ?m = "snd (fund_selector_spec (read_balance G a st aid) keys (unat amount))"
  have "unat (of_nat ?m :: uint64) = ?m"
    using fund_selector_spec_missing_le [of "read_balance G a st aid" keys amount]
    by (simp add: unat_of_nat)
  then have "(0 < (of_nat ?m :: uint64)) = (0 < ?m)"
    by (simp add: word_less_nat_alt)
  then show ?thesis
    by (simp add: GetSpendableFunds_def GetSpendableFunds_loop_spec)
qed

lemma balance_of_asset_balance:
  "balance_of a st aid addr = Uint64 (asset_balance a st aid addr)"
  by (simp add: balance_of_def asset_balance_def)

lemma read_balance_fits:
  assumes "key_balance G a st aid k < 2 ^ 64"
  shows "read_balance G a st aid k = key_balance G a st aid k"
  using assms
  by (simp add: read_balance_def key_balance_def balance_of_asset_balance Uint64_def unat_of_nat)

lemma fund_selector_spec_cong:
  "(\<And>k. k \<in> set ks \<Longrightarrow> bal k = bal' k) \<Longrightarrow>
     fund_selector_spec bal ks r = fund_selector_spec bal' ks r"
  by (induction ks arbitrary: r) (simp_all add: Let_def)

lemma subseq_distinct:
  assumes "subseq xs ys" and "distinct ys"
  shows "distinct xs"
  using subseqs_distinctD [of xs ys] assms by (simp add: in_set_subseqs)

lemma selected_input_Address:
  "map Address (map (selected_input G st aid) sel) = map G (map fst sel)"
  by (simp add: selected_input_def)

text \<open>
  C2, as the code has it. Given the account state of the last accepted block, for
  every list of keys whose balances of the asset fit in 64 bits, every asset and every
  amount, \<open>GetSpendableFunds\<close> computes the greedy selection of the specification on
  those balances. The result is \<open>errInsufficientFunds\<close>, with no inputs, when an
  amount is still missing after the last key, and otherwise one input per selected
  key, with the address, the amount taken, the asset and the nonce of the address in
  that state, and the key as its signer. The selected keys are a subsequence of the
  keys: every position of the list gives at most one input and the order is kept.
  When the keys have pairwise distinct addresses, so have the inputs: every identity
  gives at most one input. Every amount taken is positive and at most the balance and
  the target; the amounts add up to the minimum of the target and the sum of all
  balances, and what is missing is the target minus the sum of all balances.
\<close>

theorem GetSpendableFunds_greedy:
  fixes keys :: "'key list"
  assumes "BlockState = Inr st"
    and "\<forall>k\<in>set keys. key_balance G a st aid k < 2 ^ 64"
  shows
  "GetSpendableFunds G a BlockState keys aid amount =
     (if 0 < snd (fund_selector_spec (key_balance G a st aid) keys (unat amount))
      then Inl errInsufficientFunds
      else Inr (map (selected_input G st aid)
                  (fst (fund_selector_spec (key_balance G a st aid) keys (unat amount))),
                map selected_signers
                  (fst (fund_selector_spec (key_balance G a st aid) keys (unat amount)))))
   \<and> subseq (map fst (fst (fund_selector_spec (key_balance G a st aid) keys (unat amount)))) keys
   \<and> (distinct (map G keys) \<longrightarrow>
        distinct (map Address (map (selected_input G st aid)
          (fst (fund_selector_spec (key_balance G a st aid) keys (unat amount))))))
   \<and> (\<forall>sel \<in> set (fst (fund_selector_spec (key_balance G a st aid) keys (unat amount))).
         0 < snd sel \<and> snd sel \<le> key_balance G a st aid (fst sel) \<and> snd sel \<le> unat amount)
   \<and> sum_list (map snd (fst (fund_selector_spec (key_balance G a st aid) keys (unat amount)))) =
       min (unat amount) (sum_list (map (key_balance G a st aid) keys))
   \<and> snd (fund_selector_spec (key_balance G a st aid) keys (unat amount)) =
       unat amount - sum_list (map (key_balance G a st aid) keys)"
proof -
  let ?spec = "fund_selector_spec (key_balance G a st aid) keys (unat amount)"
  have same: "fund_selector_spec (read_balance G a st aid) keys (unat amount) = ?spec"
  proof (rule fund_selector_spec_cong)
    fix k
    assume "k \<in> set keys"
    with assms(2) have "key_balance G a st aid k < 2 ^ 64"
      by simp
    then show "read_balance G a st aid k = key_balance G a st aid k"
      by (rule read_balance_fits)
  qed
  have run: "GetSpendableFunds G a BlockState keys aid amount =
     (if 0 < snd ?spec then Inl errInsufficientFunds
      else Inr (map (selected_input G st aid) (fst ?spec), map selected_signers (fst ?spec)))"
    unfolding assms(1) GetSpendableFunds_spec same by (rule refl)
  have order: "subseq (map fst (fst ?spec)) keys"
    by (rule fund_selector_spec_subseq)
  have once: "distinct (map G keys) \<longrightarrow>
      distinct (map Address (map (selected_input G st aid) (fst ?spec)))"
  proof
    assume "distinct (map G keys)"
    moreover have "subseq (map G (map fst (fst ?spec))) (map G keys)"
      by (rule subseq_map [OF order])
    ultimately have "distinct (map G (map fst (fst ?spec)))"
      by (rule subseq_distinct [rotated])
    then show "distinct (map Address (map (selected_input G st aid) (fst ?spec)))"
      by (simp only: selected_input_Address)
  qed
  have amounts: "\<forall>sel \<in> set (fst ?spec).
         0 < snd sel \<and> snd sel \<le> key_balance G a st aid (fst sel) \<and> snd sel \<le> unat amount"
    using fund_selector_spec_amounts [of _ _ "key_balance G a st aid" keys "unat amount"]
    by auto
  have total: "sum_list (map snd (fst ?spec)) =
       min (unat amount) (sum_list (map (key_balance G a st aid) keys))"
    by (rule fund_selector_spec_total)
  have missing: "snd ?spec = unat amount - sum_list (map (key_balance G a st aid) keys)"
    by (rule fund_selector_spec_missing)
  show ?thesis
    by (rule conjI [OF run conjI [OF order conjI [OF once conjI [OF amounts
          conjI [OF total missing]]]]])
qed

theorem GetSpendableFunds_greedy_witness:
  "key_balance of_nat 1 example_state 2 (1::nat) = 0
   \<and> key_balance of_nat 1 example_state 2 (2::nat) = 5
   \<and> key_balance of_nat 1 example_state 2 (3::nat) = 10
   \<and> GetSpendableFunds of_nat 1 (Inr example_state) [1, 2, 3 :: nat] 2 7 =
       Inr ([\<lparr>Address = 2, Amount = 5, AssetID = 2, Nonce = 4\<rparr>,
             \<lparr>Address = 3, Amount = 2, AssetID = 2, Nonce = 0\<rparr>], [[2], [3]])
   \<and> fund_selector_spec (key_balance of_nat 1 example_state 2) [1, 2, 3 :: nat] (unat (7::uint64)) =
       ([(2, 5), (3, 2)], 0)
   \<and> distinct (map of_nat [1, 2, 3 :: nat] :: Address list)
   \<and> GetSpendableFunds of_nat 1 (Inr example_state) [1, 2, 3 :: nat] 1 8 =
       Inl (errors_New ''insufficient funds'')
   \<and> fund_selector_spec (key_balance of_nat 1 example_state 1) [1, 2, 3 :: nat] (unat (8::uint64)) =
       ([(2, 7)], 1)"
proof -
  have b1: "key_balance of_nat 1 example_state 2 (1::nat) = 0"
    and b2: "key_balance of_nat 1 example_state 2 (2::nat) = 5"
    and b3: "key_balance of_nat 1 example_state 2 (3::nat) = 10"
    by (simp_all add: key_balance_def asset_balance_def example_state_def)
  have fits: "\<forall>k\<in>set [1, 2, 3 :: nat]. key_balance of_nat 1 example_state 2 k < 2 ^ 64"
    using b1 b2 b3 by simp
  have fits_avax: "\<forall>k\<in>set [1, 2, 3 :: nat]. key_balance of_nat 1 example_state 1 k < 2 ^ 64"
    by (simp add: key_balance_def asset_balance_def example_state_def x2cRate_def)
  have spec: "fund_selector_spec (key_balance of_nat 1 example_state 2) [1, 2, 3 :: nat]
      (unat (7::uint64)) = ([(2, 5), (3, 2)], 0)"
    by (simp add: key_balance_def asset_balance_def example_state_def)
  have avax: "fund_selector_spec (key_balance of_nat 1 example_state 1) [1, 2, 3 :: nat]
      (unat (8::uint64)) = ([(2, 7)], 1)"
    by (simp add: key_balance_def asset_balance_def example_state_def x2cRate_def)
  have nonces: "GetNonce example_state 2 = 4" "GetNonce example_state 3 = 0"
    by (simp_all add: example_state_def)
  have keys: "distinct (map of_nat [1, 2, 3 :: nat] :: Address list)"
    by simp
  have run7: "GetSpendableFunds of_nat 1 (Inr example_state) [1, 2, 3 :: nat] 2 7 =
       Inr ([\<lparr>Address = 2, Amount = 5, AssetID = 2, Nonce = 4\<rparr>,
             \<lparr>Address = 3, Amount = 2, AssetID = 2, Nonce = 0\<rparr>], [[2], [3]])"
    using GetSpendableFunds_greedy [OF refl fits, where amount = 7, THEN conjunct1]
    unfolding spec by (simp add: nonces selected_input_def selected_signers_def)
  have run8: "GetSpendableFunds of_nat 1 (Inr example_state) [1, 2, 3 :: nat] 1 8 =
       Inl (errors_New ''insufficient funds'')"
    using GetSpendableFunds_greedy [OF refl fits_avax, where amount = 8, THEN conjunct1]
    unfolding avax by (simp add: errInsufficientFunds_def)
  show ?thesis
    by (rule conjI [OF b1 conjI [OF b2 conjI [OF b3 conjI [OF run7 conjI [OF spec
          conjI [OF keys conjI [OF run8 avax]]]]]]])
qed

text \<open>
  The claim has every identity give at most one input, for every sequence of
  identities, and has a zero balance be the only balance that is skipped. A key that
  is listed twice is visited twice: with balance 5 and target 8 the same address gives
  5 and then 3, with the same nonce. An address that holds \<open>2 ^ 64\<close> of the asset
  is read as holding nothing and is skipped.
\<close>

theorem GetSpendableFunds_identity_counterexample:
  "key_balance of_nat 1 example_state 2 (2::nat) = 5
   \<and> GetSpendableFunds of_nat 1 (Inr example_state) [2, 2 :: nat] 2 8 =
       Inr ([\<lparr>Address = 2, Amount = 5, AssetID = 2, Nonce = 4\<rparr>,
             \<lparr>Address = 2, Amount = 3, AssetID = 2, Nonce = 4\<rparr>], [[2], [2]])
   \<and> key_balance of_nat 1 example_large_state 2 (4::nat) = 18446744073709551616
   \<and> GetSpendableFunds of_nat 1 (Inr example_large_state) [4 :: nat] 2 1 =
       Inl errInsufficientFunds"
  by (simp add: GetSpendableFunds_def GetAcceptedNonce_def balance_of_def key_balance_def
      asset_balance_def example_state_def example_large_state_def Uint64_def)

lemma GetSpendableFunds_Inr:
  assumes "GetSpendableFunds G a (Inr st) keys aid amount = Inr (ins, sgs)"
  shows "snd (fund_selector_spec (read_balance G a st aid) keys (unat amount)) = 0
    \<and> ins = map (selected_input G st aid)
              (fst (fund_selector_spec (read_balance G a st aid) keys (unat amount)))
    \<and> sgs = map selected_signers
              (fst (fund_selector_spec (read_balance G a st aid) keys (unat amount)))"
  using assms by (simp add: GetSpendableFunds_spec split: if_splits)

lemma GetSpendableFunds_skips_zero:
  assumes ok: "GetSpendableFunds G a (Inr st) keys aid amount = Inr (ins, sgs)"
    and zero: "balance_of a st aid (G k) = 0"
  shows "G k \<notin> Address ` set ins"
proof
  let ?sel = "fst (fund_selector_spec (read_balance G a st aid) keys (unat amount))"
  assume "G k \<in> Address ` set ins"
  then obtain k' t where mem: "(k', t) \<in> set ?sel" and same: "G k' = G k"
    using GetSpendableFunds_Inr [OF ok] by (auto simp: selected_input_def)
  from fund_selector_spec_amounts [OF mem] have "0 < read_balance G a st aid k'"
    by simp
  with same zero show False
    by (simp add: read_balance_def)
qed

lemma GetSpendableFunds_covers:
  assumes ok: "GetSpendableFunds G a (Inr st) keys aid amount = Inr (ins, sgs)"
  shows "sum_list (map (\<lambda>i. unat (Amount i)) ins) = unat amount"
proof -
  let ?bal = "read_balance G a st aid"
  let ?sel = "fst (fund_selector_spec ?bal keys (unat amount))"
  have small: "unat (of_nat (snd s) :: uint64) = snd s" if "s \<in> set ?sel" for s
  proof -
    have "snd s \<le> unat amount"
      using fund_selector_spec_amounts [of "fst s" "snd s" ?bal keys "unat amount"] that
      by simp
    moreover have "unat amount < 2 ^ 64"
      using unsigned_less [of amount] by simp
    ultimately show ?thesis
      by (simp add: unat_of_nat)
  qed
  have "map (\<lambda>i. unat (Amount i)) ins = map snd ?sel"
    using GetSpendableFunds_Inr [OF ok] small by (simp add: selected_input_def)
  moreover have "sum_list (map snd ?sel) = unat amount"
    using GetSpendableFunds_Inr [OF ok] fund_selector_spec_sum [of ?bal keys "unat amount"]
    by simp
  ultimately show ?thesis by simp
qed

text \<open>
  C3, as the code has it. For three keys whose balances of the asset are 0, 5 and 10:
  with target 8 the first key is skipped, the second gives 5 and the third gives the
  3 still missing; with target 20 the loop selects 5 of the second and 10 of the
  third, 5 is still missing, and the result is \<open>errInsufficientFunds\<close>. For all
  keys and amounts: a key whose balance is zero has no input in a successful result,
  and the amounts of a successful result add up to the target.
\<close>

theorem GetSpendableFunds_balances_0_5_10:
  fixes k1 :: 'key
  assumes "balance_of a st aid (G k1) = 0" and "balance_of a st aid (G k2) = 5"
    and "balance_of a st aid (G k3) = 10"
  shows
  "GetSpendableFunds G a (Inr st) [k1, k2, k3] aid 8 =
     Inr ([\<lparr>Address = G k2, Amount = 5, AssetID = aid, Nonce = GetNonce st (G k2)\<rparr>,
           \<lparr>Address = G k3, Amount = 3, AssetID = aid, Nonce = GetNonce st (G k3)\<rparr>],
          [[k2], [k3]])
   \<and> GetSpendableFunds_loop G a (Inr st) st aid [k1, k2, k3] [] [] 20 =
       Inr ([\<lparr>Address = G k2, Amount = 5, AssetID = aid, Nonce = GetNonce st (G k2)\<rparr>,
             \<lparr>Address = G k3, Amount = 10, AssetID = aid, Nonce = GetNonce st (G k3)\<rparr>],
            [[k2], [k3]], 5)
   \<and> GetSpendableFunds G a (Inr st) [k1, k2, k3] aid 20 = Inl errInsufficientFunds
   \<and> (\<forall>(keys :: 'key list) amount ins sgs.
         GetSpendableFunds G a (Inr st) keys aid amount = Inr (ins, sgs) \<longrightarrow>
           (\<forall>k\<in>set keys. balance_of a st aid (G k) = 0 \<longrightarrow> G k \<notin> Address ` set ins)
           \<and> sum_list (map (\<lambda>i. unat (Amount i)) ins) = unat amount)"
proof -
  have loop8: "GetSpendableFunds_loop G a (Inr st) st aid [k1, k2, k3] [] [] 8 =
       Inr ([\<lparr>Address = G k2, Amount = 5, AssetID = aid, Nonce = GetNonce st (G k2)\<rparr>,
             \<lparr>Address = G k3, Amount = 3, AssetID = aid, Nonce = GetNonce st (G k3)\<rparr>],
            [[k2], [k3]], 0)"
    using assms by (simp add: GetAcceptedNonce_def Let_def)
  have loop20: "GetSpendableFunds_loop G a (Inr st) st aid [k1, k2, k3] [] [] 20 =
       Inr ([\<lparr>Address = G k2, Amount = 5, AssetID = aid, Nonce = GetNonce st (G k2)\<rparr>,
             \<lparr>Address = G k3, Amount = 10, AssetID = aid, Nonce = GetNonce st (G k3)\<rparr>],
            [[k2], [k3]], 5)"
    using assms by (simp add: GetAcceptedNonce_def Let_def)
  have general: "\<forall>(keys :: 'key list) amount ins sgs.
         GetSpendableFunds G a (Inr st) keys aid amount = Inr (ins, sgs) \<longrightarrow>
           (\<forall>k\<in>set keys. balance_of a st aid (G k) = 0 \<longrightarrow> G k \<notin> Address ` set ins)
           \<and> sum_list (map (\<lambda>i. unat (Amount i)) ins) = unat amount"
  proof (intro allI impI)
    fix keys :: "'key list" and amount ins sgs
    assume ok: "GetSpendableFunds G a (Inr st) keys aid amount = Inr (ins, sgs)"
    have skip: "\<forall>k\<in>set keys. balance_of a st aid (G k) = 0 \<longrightarrow> G k \<notin> Address ` set ins"
      using GetSpendableFunds_skips_zero [OF ok] by simp
    have cover: "sum_list (map (\<lambda>i. unat (Amount i)) ins) = unat amount"
      by (rule GetSpendableFunds_covers [OF ok])
    show "(\<forall>k\<in>set keys. balance_of a st aid (G k) = 0 \<longrightarrow> G k \<notin> Address ` set ins)
           \<and> sum_list (map (\<lambda>i. unat (Amount i)) ins) = unat amount"
      by (rule conjI [OF skip cover])
  qed
  have run8: "GetSpendableFunds G a (Inr st) [k1, k2, k3] aid 8 =
     Inr ([\<lparr>Address = G k2, Amount = 5, AssetID = aid, Nonce = GetNonce st (G k2)\<rparr>,
           \<lparr>Address = G k3, Amount = 3, AssetID = aid, Nonce = GetNonce st (G k3)\<rparr>],
          [[k2], [k3]])"
    using loop8 by (simp add: GetSpendableFunds_def)
  have run20: "GetSpendableFunds G a (Inr st) [k1, k2, k3] aid 20 = Inl errInsufficientFunds"
    using loop20 by (simp add: GetSpendableFunds_def)
  show ?thesis
    by (rule conjI [OF run8 conjI [OF loop20 conjI [OF run20 general]]])
qed

theorem GetSpendableFunds_balances_0_5_10_witness:
  "balance_of 1 example_state 2 (of_nat (1::nat)) = 0
   \<and> balance_of 1 example_state 2 (of_nat (2::nat)) = 5
   \<and> balance_of 1 example_state 2 (of_nat (3::nat)) = 10
   \<and> GetSpendableFunds of_nat 1 (Inr example_state) [1, 2, 3 :: nat] 2 8 =
       Inr ([\<lparr>Address = 2, Amount = 5, AssetID = 2, Nonce = 4\<rparr>,
             \<lparr>Address = 3, Amount = 3, AssetID = 2, Nonce = 0\<rparr>], [[2], [3]])
   \<and> GetSpendableFunds of_nat 1 (Inr example_state) [1, 2, 3 :: nat] 2 20 =
       Inl errInsufficientFunds"
proof -
  have b1: "balance_of 1 example_state 2 (of_nat (1::nat)) = 0"
    and b2: "balance_of 1 example_state 2 (of_nat (2::nat)) = 5"
    and b3: "balance_of 1 example_state 2 (of_nat (3::nat)) = 10"
    by (simp_all add: balance_of_def example_state_def Uint64_def)
  have nonces: "GetNonce example_state 2 = 4" "GetNonce example_state 3 = 0"
    by (simp_all add: example_state_def)
  note inst = GetSpendableFunds_balances_0_5_10 [where a = 1 and st = example_state
      and aid = 2 and G = of_nat and ?k1.0 = "1::nat" and ?k2.0 = 2 and ?k3.0 = 3,
      OF b1 b2 b3]
  have run8: "GetSpendableFunds of_nat 1 (Inr example_state) [1, 2, 3 :: nat] 2 8 =
       Inr ([\<lparr>Address = 2, Amount = 5, AssetID = 2, Nonce = 4\<rparr>,
             \<lparr>Address = 3, Amount = 3, AssetID = 2, Nonce = 0\<rparr>], [[2], [3]])"
    using inst [THEN conjunct1] by (simp add: nonces)
  have run20: "GetSpendableFunds of_nat 1 (Inr example_state) [1, 2, 3 :: nat] 2 20 =
       Inl errInsufficientFunds"
    by (rule inst [THEN conjunct2, THEN conjunct2, THEN conjunct1])
  show ?thesis
    by (rule conjI [OF b1 conjI [OF b2 conjI [OF b3 conjI [OF run8 run20]]]])
qed

text \<open>
  The claim has the second key give 8 with target 8. Its balance is 5: it gives 5 and
  the third key gives 3.
\<close>

theorem GetSpendableFunds_target_8_counterexample:
  "balance_of 1 example_state 2 (of_nat (1::nat)) = 0
   \<and> balance_of 1 example_state 2 (of_nat (2::nat)) = 5
   \<and> balance_of 1 example_state 2 (of_nat (3::nat)) = 10
   \<and> GetSpendableFunds of_nat 1 (Inr example_state) [1, 2, 3 :: nat] 2 8 \<noteq>
       Inr ([\<lparr>Address = 2, Amount = 8, AssetID = 2, Nonce = 4\<rparr>], [[2]])
   \<and> GetSpendableFunds of_nat 1 (Inr example_state) [1, 2, 3 :: nat] 2 8 =
       Inr ([\<lparr>Address = 2, Amount = 5, AssetID = 2, Nonce = 4\<rparr>,
             \<lparr>Address = 3, Amount = 3, AssetID = 2, Nonce = 0\<rparr>], [[2], [3]])"
  by (simp add: GetSpendableFunds_def GetAcceptedNonce_def balance_of_def example_state_def
      Uint64_def)

end
